theory Spec2Isabelle
  imports Main "HOL-Library.Word"
begin

unbundle bit_operations_syntax

section \<open>TaskFlow backend: data model\<close>

text \<open>
  The service of \<^verbatim>\<open>backend/src/app.py\<close>: six FastAPI handlers over one table of tasks.
  A Python \<^verbatim>\<open>str\<close> is a \<^typ>\<open>string\<close> (code points up to 255), a \<^verbatim>\<open>datetime\<close> is a
  number of microseconds, \<^verbatim>\<open>Optional[T]\<close> is \<^typ>\<open>'a option\<close>.

  Modelled from the spec: the enumerations \<^verbatim>\<open>TaskStatus\<close> and \<^verbatim>\<open>TaskPriority\<close> are imported
  from \<^verbatim>\<open>models.py\<close>, which is not among the sources; the data model of the specification
  gives their members. Every member is truthy in a Python condition.
\<close>

datatype TaskStatus = TODO | IN_PROGRESS | DONE

datatype TaskPriority = LOW | MEDIUM | HIGH

type_synonym datetime = int

text \<open>
  The JSON body of a POST or PUT request before Pydantic has looked at it: every key may be
  missing. An enumeration key that is present already holds a member (a text that names no
  member is rejected by Pydantic before any code of the handler runs).
\<close>

record body =
  b_title :: "string option"
  b_description :: "string option"
  b_status :: "TaskStatus option"
  b_priority :: "TaskPriority option"
  b_assignee :: "string option"
  b_due_date :: "datetime option"

text \<open>\<^verbatim>\<open>class TaskCreate(BaseModel)\<close>, a validated body of POST /tasks.\<close>

record TaskCreate =
  title :: string
  description :: "string option"
  status :: TaskStatus
  priority :: TaskPriority
  assignee :: "string option"
  due_date :: "datetime option"

text \<open>\<^verbatim>\<open>class TaskUpdate(BaseModel)\<close>, a validated body of PUT /tasks/{task_id}; a field
  that was not supplied is \<open>None\<close>.\<close>

record TaskUpdate =
  title :: "string option"
  description :: "string option"
  status :: "TaskStatus option"
  priority :: "TaskPriority option"
  assignee :: "string option"
  due_date :: "datetime option"

text \<open>
  \<^verbatim>\<open>TaskModel(id=..., title=..., ...)\<close> as \<^verbatim>\<open>create_task\<close> constructs it: the seven keyword
  arguments, no timestamp. \<^verbatim>\<open>class Task(BaseModel)\<close>, the response model, has the same
  fields and the two timestamps; a row of the table is a \<open>Task\<close> as well
  (\<^verbatim>\<open>from_attributes = True\<close> copies a row field by field).
\<close>

record TaskModel =
  id_str :: string
  title :: string
  description :: "string option"
  status :: TaskStatus
  priority :: TaskPriority
  assignee :: "string option"
  due_date :: "datetime option"

record Task = TaskModel +
  created_at :: datetime
  updated_at :: datetime

text \<open>
  What a request can end with instead of a value: \<^verbatim>\<open>HTTPException(status_code=...)\<close> raised
  by a handler, the 422 answer of FastAPI when a path parameter or a body does not validate,
  and any other Python exception that leaves the handler (answered with 500).
\<close>

datatype error = HTTPException nat | RequestValidationError | Unhandled string

fun status_code :: "error \<Rightarrow> nat" where
  "status_code (HTTPException c) = c"
| "status_code RequestValidationError = 422"
| "status_code (Unhandled e) = 500"


section \<open>Python and framework primitives\<close>

text \<open>\<^verbatim>\<open>str.isspace\<close> on one character and \<^verbatim>\<open>str.strip()\<close>.\<close>

definition isspace :: "char \<Rightarrow> bool" where
  "isspace c =
     (let n = (of_char c :: nat)
      in (9 \<le> n \<and> n \<le> 13) \<or> (28 \<le> n \<and> n \<le> 32) \<or> n = 133 \<or> n = 160)"

definition strip :: "string \<Rightarrow> string" where
  "strip s = rev (dropWhile isspace (rev (dropWhile isspace s)))"

text \<open>
  \<^verbatim>\<open>uuid.uuid4()\<close> reads sixteen random bytes as one 128-bit integer and overwrites the
  variant and the version bits; \<^verbatim>\<open>str\<close> of a UUID prints the 32 lower-case hexadecimal
  digits in groups of 8, 4, 4, 4 and 12. The random bytes are an input of the model.
\<close>

definition uuid4 :: "128 word \<Rightarrow> 128 word" where
  "uuid4 rnd =
     (((rnd AND NOT (push_bit 48 0xc000)) OR push_bit 48 0x8000)
        AND NOT (push_bit 64 0xf000)) OR push_bit 76 4"

definition hexdigit :: "nat \<Rightarrow> char" where
  "hexdigit n = ''0123456789abcdef'' ! n"

definition nibble :: "128 word \<Rightarrow> nat \<Rightarrow> nat" where
  "nibble w i = unat (drop_bit (4 * (31 - i)) w AND 0xf)"

definition hex32 :: "128 word \<Rightarrow> string" where
  "hex32 w = map (\<lambda>i. hexdigit (nibble w i)) [0..<32]"

definition str_uuid :: "128 word \<Rightarrow> string" where
  "str_uuid w =
     (let h = hex32 w
      in take 8 h @ ''-'' @ take 4 (drop 8 h) @ ''-'' @ take 4 (drop 12 h) @ ''-''
           @ take 4 (drop 16 h) @ ''-'' @ drop 20 h)"

text \<open>
  The path parameter \<^verbatim>\<open>task_id: int\<close> of \<^verbatim>\<open>update_task\<close>: the framework turns the text
  of the path segment into an integer and answers 422 when it is not one. Surrounding
  white space is dropped, one sign is allowed, the rest must be decimal digits.
\<close>

definition isdigit :: "char \<Rightarrow> bool" where
  "isdigit c = (48 \<le> (of_char c :: nat) \<and> (of_char c :: nat) \<le> 57)"

definition digits_value :: "string \<Rightarrow> int" where
  "digits_value ds = foldl (\<lambda>a c. 10 * a + (int (of_char c) - 48)) 0 ds"

definition int_of_path :: "string \<Rightarrow> int option" where
  "int_of_path s =
     (case strip s of
        [] \<Rightarrow> None
      | c # r \<Rightarrow>
          (let neg = (c = CHR ''-'');
               ds = (if c = CHR ''-'' \<or> c = CHR ''+'' then r else c # r)
           in if ds \<noteq> [] \<and> list_all isdigit ds
              then Some (if neg then - digits_value ds else digits_value ds)
              else None))"

text \<open>Pydantic's checks of the two request models (\<^verbatim>\<open>Field(..., min_length, max_length)\<close>).\<close>

definition max_length :: "nat \<Rightarrow> string option \<Rightarrow> bool" where
  "max_length n v = (case v of None \<Rightarrow> True | Some s \<Rightarrow> length s \<le> n)"

definition validate_TaskCreate :: "body \<Rightarrow> error + TaskCreate" where
  "validate_TaskCreate b =
     (case b_title b of
        None \<Rightarrow> Inl RequestValidationError
      | Some t \<Rightarrow>
          if 1 \<le> length t \<and> length t \<le> 200 \<and> max_length 1000 (b_description b)
             \<and> max_length 100 (b_assignee b)
          then Inr \<lparr>TaskCreate.title = t,
                    TaskCreate.description = b_description b,
                    TaskCreate.status = (case b_status b of None \<Rightarrow> TODO | Some s \<Rightarrow> s),
                    TaskCreate.priority = (case b_priority b of None \<Rightarrow> MEDIUM | Some p \<Rightarrow> p),
                    TaskCreate.assignee = b_assignee b,
                    TaskCreate.due_date = b_due_date b\<rparr>
          else Inl RequestValidationError)"

definition validate_TaskUpdate :: "body \<Rightarrow> error + TaskUpdate" where
  "validate_TaskUpdate b =
     (if (case b_title b of None \<Rightarrow> True | Some t \<Rightarrow> 1 \<le> length t \<and> length t \<le> 200)
         \<and> max_length 1000 (b_description b) \<and> max_length 100 (b_assignee b)
      then Inr \<lparr>TaskUpdate.title = b_title b,
                TaskUpdate.description = b_description b,
                TaskUpdate.status = b_status b,
                TaskUpdate.priority = b_priority b,
                TaskUpdate.assignee = b_assignee b,
                TaskUpdate.due_date = b_due_date b\<rparr>
      else Inl RequestValidationError)"


section \<open>The persistence collaborator\<close>

text \<open>
  The table of tasks is the list of its rows, oldest first. A query is a list of rows,
  \<^verbatim>\<open>.filter\<close> is \<^const>\<open>filter\<close>, \<^verbatim>\<open>.first()\<close> is \<^const>\<open>find\<close>, \<^verbatim>\<open>.count()\<close> is
  \<^const>\<open>length\<close>.

  Modelled from the spec: the table declaration \<^verbatim>\<open>TaskModel\<close> is in \<^verbatim>\<open>models.py\<close>, which is
  not among the sources. By the data model of the specification \<open>id\<close> identifies at most one
  task, so the insert of a row whose id is already stored fails at commit; and the two
  timestamps, which \<^verbatim>\<open>create_task\<close> does not pass, are set at creation to the current time
  of the insert. \<open>exc\<close> is the exception, if any, that the collaborator raises at commit.
\<close>

definition add_commit_refresh ::
  "string option \<Rightarrow> datetime \<Rightarrow> TaskModel \<Rightarrow> Task list \<Rightarrow> string + (Task \<times> Task list)" where
  "add_commit_refresh exc db_now obj db =
     (case exc of
        Some msg \<Rightarrow> Inl msg
      | None \<Rightarrow>
          if id_str obj \<in> set (map id_str db) then Inl ''IntegrityError''
          else
            (let row = \<lparr>id_str = id_str obj, title = TaskModel.title obj,
                        description = TaskModel.description obj,
                        status = TaskModel.status obj, priority = TaskModel.priority obj,
                        assignee = TaskModel.assignee obj, due_date = TaskModel.due_date obj,
                        created_at = db_now, updated_at = db_now\<rparr>
             in Inr (row, db @ [row])))"

text \<open>
  A row object is a plain ORM instance: its class defines none of \<^verbatim>\<open>__contains__\<close>,
  \<^verbatim>\<open>__iter__\<close>, \<^verbatim>\<open>__getitem__\<close> and \<^verbatim>\<open>__setitem__\<close>, so \<^verbatim>\<open>x in row\<close>, \<^verbatim>\<open>row[x]\<close> and
  \<^verbatim>\<open>row[x] = v\<close> raise \<^verbatim>\<open>TypeError\<close>. \<^verbatim>\<open>db.refresh\<close> of an object that is not a mapped
  instance (a Pydantic \<open>Task\<close>) raises as well.
\<close>

definition row_contains :: "Task \<Rightarrow> int \<Rightarrow> error + bool" where
  "row_contains tasks_db task_id = Inl (Unhandled ''TypeError'')"

definition row_getitem :: "Task \<Rightarrow> int \<Rightarrow> error + Task" where
  "row_getitem tasks_db task_id = Inl (Unhandled ''TypeError'')"

definition row_setitem :: "Task \<Rightarrow> int \<Rightarrow> Task \<Rightarrow> error + unit" where
  "row_setitem tasks_db task_id task = Inl (Unhandled ''TypeError'')"

definition refresh_unmapped :: "Task \<Rightarrow> error + unit" where
  "refresh_unmapped task = Inl (Unhandled ''UnmappedInstanceError'')"


section \<open>The handlers\<close>

subsection \<open>GET /health\<close>

text \<open>
  The answer is a dictionary. \<open>execute_exc\<close> and \<open>count_exc\<close> are the exceptions, if any,
  that \<^verbatim>\<open>db.execute(text("SELECT 1"))\<close> and \<^verbatim>\<open>db.query(TaskModel).count()\<close> raise; their
  \<^verbatim>\<open>str\<close> is the message. \<^verbatim>\<open>except Exception\<close> catches both.
\<close>

datatype json = S string | N nat

definition health_check ::
  "string option \<Rightarrow> string option \<Rightarrow> Task list \<Rightarrow> error + (string \<times> json) list" where
  "health_check execute_exc count_exc db =
     (case execute_exc of
        Some e \<Rightarrow> Inr [(''status'', S ''unhealthy''), (''database'', S e)]
      | None \<Rightarrow>
          (case count_exc of
             Some e \<Rightarrow> Inr [(''status'', S ''unhealthy''), (''database'', S e)]
           | None \<Rightarrow>
               (let tasks_count = length db
                in Inr [(''status'', S ''healthy''), (''database'', S ''connected''),
                        (''tasks_count'', N tasks_count)])))"

subsection \<open>GET /tasks\<close>

text \<open>\<^verbatim>\<open>if status:\<close>, \<^verbatim>\<open>if priority:\<close> and \<^verbatim>\<open>if assignee:\<close> test truthiness: \<open>None\<close> is
  false, a member of an enumeration is true, a text is true when it is not empty.\<close>

definition truthy_enum :: "'a option \<Rightarrow> bool" where
  "truthy_enum v = (case v of None \<Rightarrow> False | Some m \<Rightarrow> True)"

definition truthy_str :: "string option \<Rightarrow> bool" where
  "truthy_str v = (case v of None \<Rightarrow> False | Some s \<Rightarrow> s \<noteq> [])"

definition get_tasks ::
  "TaskStatus option \<Rightarrow> TaskPriority option \<Rightarrow> string option \<Rightarrow> Task list \<Rightarrow> Task list" where
  "get_tasks status_q priority_q assignee_q db =
     (let query = db;
          query = (if truthy_enum status_q
                   then filter (\<lambda>r. Some (status r) = status_q) query else query);
          query = (if truthy_enum priority_q
                   then filter (\<lambda>r. Some (priority r) = priority_q) query else query);
          query = (if truthy_str assignee_q
                   then filter (\<lambda>r. assignee r = assignee_q) query else query)
      in query)"

subsection \<open>GET /tasks/{task_id}\<close>

definition get_task :: "string \<Rightarrow> Task list \<Rightarrow> error + Task" where
  "get_task task_id db =
     (case find (\<lambda>r. id_str r = task_id) db of
        None \<Rightarrow> Inl (HTTPException 404)
      | Some task \<Rightarrow> Inr task)"

subsection \<open>POST /tasks\<close>

text \<open>
  \<open>rnd\<close> are the random bytes \<^verbatim>\<open>uuid4\<close> draws and \<open>now\<close> is what
  \<^verbatim>\<open>datetime.now(timezone.utc)\<close> returns: the handler computes it and passes it nowhere.
  \<open>exc\<close> and \<open>db_now\<close> belong to the collaborator (see \<^const>\<open>add_commit_refresh\<close>).
  The result is the answer and the table after the request.
\<close>

definition create_task ::
  "128 word \<Rightarrow> datetime \<Rightarrow> string option \<Rightarrow> datetime \<Rightarrow> body \<Rightarrow> Task list
     \<Rightarrow> (error + Task) \<times> Task list" where
  "create_task rnd now exc db_now b db =
     (case validate_TaskCreate b of
        Inl e \<Rightarrow> (Inl e, db)
      | Inr task_data \<Rightarrow>
          if TaskCreate.title task_data = [] \<or> strip (TaskCreate.title task_data) = []
          then (Inl (HTTPException 422), db)
          else
            (let task_id = str_uuid (uuid4 rnd);
                 db_task = \<lparr>id_str = task_id,
                            title = TaskCreate.title task_data,
                            description = TaskCreate.description task_data,
                            status = TaskCreate.status task_data,
                            priority = TaskCreate.priority task_data,
                            assignee = TaskCreate.assignee task_data,
                            due_date = TaskCreate.due_date task_data\<rparr>
             in case add_commit_refresh exc db_now db_task db of
                  Inl e \<Rightarrow> (Inl (HTTPException 500), db)
                | Inr (row, db') \<Rightarrow> (Inr row, db')))"

subsection \<open>PUT /tasks/{task_id}\<close>

text \<open>
  \<open>path\<close> is the text of the path segment, which the route declares as \<^verbatim>\<open>int\<close>. \<open>id_eq\<close>
  is how the database engine compares the text column \<open>id\<close> with that integer (the engine
  is configured in \<^verbatim>\<open>database.py\<close>, not among the sources). \<open>utcnow\<close> is what
  \<^verbatim>\<open>datetime.utcnow()\<close> returns. \<^verbatim>\<open>updates.model_dump(exclude_unset=True)\<close> holds the
  supplied fields; the loop over it assigns to the local \<^verbatim>\<open>task\<close>, which is bound only
  further down, so its first round raises \<^verbatim>\<open>UnboundLocalError\<close>. Nothing is pending at
  \<^verbatim>\<open>db.commit()\<close>, so the table stays as it is.
\<close>

definition update_data_empty :: "TaskUpdate \<Rightarrow> bool" where
  "update_data_empty u =
     (TaskUpdate.title u = None \<and> TaskUpdate.description u = None \<and> TaskUpdate.status u = None
      \<and> TaskUpdate.priority u = None \<and> TaskUpdate.assignee u = None
      \<and> TaskUpdate.due_date u = None)"

definition merged :: "TaskUpdate \<Rightarrow> Task \<Rightarrow> datetime \<Rightarrow> Task" where
  "merged u existing_task utcnow =
     \<lparr>id_str = id_str existing_task,
      title = (case TaskUpdate.title u of Some v \<Rightarrow> v | None \<Rightarrow> title existing_task),
      description = (case TaskUpdate.description u of Some v \<Rightarrow> Some v
                     | None \<Rightarrow> description existing_task),
      status = (case TaskUpdate.status u of Some v \<Rightarrow> v | None \<Rightarrow> status existing_task),
      priority = (case TaskUpdate.priority u of Some v \<Rightarrow> v | None \<Rightarrow> priority existing_task),
      assignee = (case TaskUpdate.assignee u of Some v \<Rightarrow> Some v
                  | None \<Rightarrow> assignee existing_task),
      due_date = (case TaskUpdate.due_date u of Some v \<Rightarrow> Some v
                  | None \<Rightarrow> due_date existing_task),
      created_at = created_at existing_task,
      updated_at = utcnow\<rparr>"

definition update_task ::
  "(string \<Rightarrow> int \<Rightarrow> bool) \<Rightarrow> datetime \<Rightarrow> string \<Rightarrow> body \<Rightarrow> Task list
     \<Rightarrow> (error + Task) \<times> Task list" where
  "update_task id_eq utcnow path b db =
     (case int_of_path path of
        None \<Rightarrow> (Inl RequestValidationError, db)
      | Some task_id \<Rightarrow>
      (case validate_TaskUpdate b of
        Inl e \<Rightarrow> (Inl e, db)
      | Inr updates \<Rightarrow>
      (case find (\<lambda>r. id_eq (id_str r) task_id) db of
        None \<Rightarrow> (Inl (HTTPException 404), db)
      | Some tasks_db \<Rightarrow>
      (case row_contains tasks_db task_id of
        Inl e \<Rightarrow> (Inl e, db)
      | Inr present \<Rightarrow>
          if \<not> present then (Inl (HTTPException 404), db)
          else
      (case row_getitem tasks_db task_id of
        Inl e \<Rightarrow> (Inl e, db)
      | Inr existing_task \<Rightarrow>
          if \<not> update_data_empty updates then (Inl (Unhandled ''UnboundLocalError''), db)
          else if title existing_task = [] \<or> strip (title existing_task) = []
          then (Inl (HTTPException 422), db)
          else
            (let task = merged updates existing_task utcnow
             in case refresh_unmapped task of
                  Inl e \<Rightarrow> (Inl e, db)
                | Inr u \<Rightarrow>
                    (case row_setitem tasks_db task_id task of
                       Inl e \<Rightarrow> (Inl e, db)
                     | Inr u' \<Rightarrow> (Inr task, db))))))))"

subsection \<open>DELETE /tasks/{task_id}\<close>

definition delete_task :: "string \<Rightarrow> Task list \<Rightarrow> (error + unit) \<times> Task list" where
  "delete_task task_id db =
     (case find (\<lambda>r. id_str r = task_id) db of
        None \<Rightarrow> (Inl (HTTPException 404), db)
      | Some task \<Rightarrow> (Inr (), filter (\<lambda>r. id_str r \<noteq> id_str task) db))"

subsection \<open>States of the service\<close>

text \<open>The tables that requests to the three mutating handlers can produce from the empty
  table.\<close>

inductive reachable :: "Task list \<Rightarrow> bool" where
  init: "reachable []"
| create: "reachable db \<Longrightarrow> create_task rnd now exc db_now b db = (r, db') \<Longrightarrow> reachable db'"
| update: "reachable db \<Longrightarrow> update_task id_eq utcnow path b db = (r, db') \<Longrightarrow> reachable db'"
| delete: "reachable db \<Longrightarrow> delete_task task_id db = (r, db') \<Longrightarrow> reachable db'"

section \<open>The specification's words and example data\<close>

text \<open>
  A task matches a set of filters when it agrees with every filter that is supplied: the
  reading of list in the specification, to be compared with \<^const>\<open>get_tasks\<close>.
\<close>

definition spec_matches ::
  "TaskStatus option \<Rightarrow> TaskPriority option \<Rightarrow> string option \<Rightarrow> Task \<Rightarrow> bool" where
  "spec_matches status_q priority_q assignee_q t =
     ((case status_q of None \<Rightarrow> True | Some s \<Rightarrow> status t = s)
      \<and> (case priority_q of None \<Rightarrow> True | Some p \<Rightarrow> priority t = p)
      \<and> (case assignee_q of None \<Rightarrow> True | Some a \<Rightarrow> assignee t = Some a))"

text \<open>The invariant on titles: neither empty nor white space only.\<close>

definition title_ok :: "Task \<Rightarrow> bool" where
  "title_ok t = (title t \<noteq> [] \<and> strip (title t) \<noteq> [])"

definition titles_ok :: "Task list \<Rightarrow> bool" where
  "titles_ok db = list_all title_ok db"

text \<open>A body, the task that POST /tasks makes of it when the random bytes are all zero,
  the empty body, and a body whose title is three spaces.\<close>

definition ex_body :: body where
  "ex_body = \<lparr>b_title = Some ''Write spec'', b_description = None, b_status = None,
              b_priority = None, b_assignee = Some ''bob'', b_due_date = None\<rparr>"

definition ex_task :: Task where
  "ex_task = \<lparr>id_str = ''00000000-0000-4000-8000-000000000000'', title = ''Write spec'',
              description = None, status = TODO, priority = MEDIUM, assignee = Some ''bob'',
              due_date = None, created_at = 2, updated_at = 2\<rparr>"


definition empty_body :: body where
  "empty_body = \<lparr>b_title = None, b_description = None, b_status = None,
                 b_priority = None, b_assignee = None, b_due_date = None\<rparr>"

definition blank_body :: body where
  "blank_body = empty_body\<lparr>b_title := Some ''   ''\<rparr>"

text \<open>A row whose id is the text of an integer; no request to the service stores such a row.\<close>

definition numbered_task :: Task where
  "numbered_task = ex_task\<lparr>id_str := ''7''\<rparr>"


section \<open>Identifiers\<close>

text \<open>The text of a UUID has a hyphen after eight hexadecimal digits, so it is never the
  text of an integer; and it determines the UUID.\<close>


lemma nibble_less: "nibble w i < 16"
proof -
  have "drop_bit (4 * (31 - i)) w AND 0xf \<le> (0xf :: 128 word)"
    by (rule word_and_le1)
  then have "unat (drop_bit (4 * (31 - i)) w AND 0xf) \<le> unat (0xf :: 128 word)"
    by (simp add: word_le_nat_alt)
  then show ?thesis by (simp add: nibble_def)
qed

lemma hexdigit_table:
  "\<forall>n \<in> set [0..<16]. \<not> isspace (hexdigit n) \<and> hexdigit n \<noteq> CHR ''-'' \<and> hexdigit n \<noteq> CHR ''+''"
  by (simp add: upt_rec hexdigit_def isspace_def)

lemma hexdigit_plain:
  assumes "n < 16"
  shows "\<not> isspace (hexdigit n)" and "hexdigit n \<noteq> CHR ''-''" and "hexdigit n \<noteq> CHR ''+''"
  using assms hexdigit_table by auto



lemma upt_32:
  "[0..<32] = [0, 1, 2, 3, 4, 5, 6, 7, 8, 9, 10, 11, 12, 13, 14, 15, 16, 17, 18, 19, 20, 21,
     22, 23, 24, 25, 26, 27, 28, 29, 30, 31 :: nat]"
  by code_simp

lemma str_uuid_explicit:
  "str_uuid w = (let d = (\<lambda>i. hexdigit (nibble w i)) in
     [d 0, d 1, d 2, d 3, d 4, d 5, d 6, d 7, CHR ''-'', d 8, d 9, d 10, d 11, CHR ''-'',
      d 12, d 13, d 14, d 15, CHR ''-'', d 16, d 17, d 18, d 19, CHR ''-'',
      d 20, d 21, d 22, d 23, d 24, d 25, d 26, d 27, d 28, d 29, d 30, d 31])"
  by (simp add: str_uuid_def hex32_def upt_32)

lemma strip_str_uuid: "strip (str_uuid w) = str_uuid w"
  by (simp add: strip_def str_uuid_explicit hexdigit_plain nibble_less)

lemma isdigit_hyphen: "\<not> isdigit CHR ''-''"
  by (simp add: isdigit_def)

lemma int_of_path_str_uuid: "int_of_path (str_uuid w) = None"
  unfolding int_of_path_def strip_str_uuid
  by (simp add: str_uuid_explicit hexdigit_plain nibble_less isdigit_hyphen)







section \<open>What each handler does to the table\<close>

lemma str_uuid_zero: "str_uuid (uuid4 0) = ''00000000-0000-4000-8000-000000000000''"
  by code_simp

lemma strip_ex: "strip ''Write spec'' = ''Write spec''"
  by (simp add: strip_def isspace_def)

lemma create_ex: "create_task 0 1 None 2 ex_body [] = (Inr ex_task, [ex_task])"
  by (simp add: create_task_def validate_TaskCreate_def ex_body_def max_length_def strip_ex
      add_commit_refresh_def str_uuid_zero ex_task_def Let_def)

lemma create_task_Inr:
  assumes "create_task rnd now exc db_now b db = (Inr t, db')"
  shows "db' = db @ [t]" and "id_str t = str_uuid (uuid4 rnd)" and "id_str t \<notin> id_str ` set db"
    and "created_at t = db_now" and "updated_at t = db_now" and "title_ok t"
  using assms
  by (auto simp: create_task_def validate_TaskCreate_def add_commit_refresh_def Let_def title_ok_def
      split: option.splits if_splits sum.splits)

lemma create_task_Inl:
  "create_task rnd now exc db_now b db = (Inl e, db') \<Longrightarrow> db' = db"
  by (auto simp: create_task_def validate_TaskCreate_def add_commit_refresh_def Let_def
      split: option.splits if_splits sum.splits)

lemma update_task_fails: "\<exists>e. update_task id_eq utcnow path b db = (Inl e, db)"
  by (simp add: update_task_def row_contains_def split: option.splits sum.splits)

lemma update_task_uuid_path:
  "update_task id_eq utcnow (str_uuid w) b db = (Inl RequestValidationError, db)"
  by (simp add: update_task_def int_of_path_str_uuid)

lemma delete_task_set: "delete_task task_id db = (r, db') \<Longrightarrow> set db' \<subseteq> set db"
  by (auto simp: delete_task_def split: option.splits)

lemma find_append_last:
  "\<forall>r \<in> set xs. \<not> P r \<Longrightarrow> P x \<Longrightarrow> find P (xs @ [x]) = Some x"
  by (induction xs) auto

text \<open>Every stored row was made by \<^const>\<open>create_task\<close>: its title passed the check of the
  handler and its id is the text of a version-4 UUID.\<close>

lemma reachable_rows:
  "reachable db \<Longrightarrow> t \<in> set db \<Longrightarrow> title_ok t \<and> (\<exists>rnd. id_str t = str_uuid (uuid4 rnd))"
proof (induction arbitrary: t rule: reachable.induct)
  case init
  then show ?case by simp
next
  case (create db rnd now exc db_now b r db')
  show ?case
  proof (cases r)
    case (Inl e)
    with create.hyps have "db' = db" by (simp add: create_task_Inl)
    with create show ?thesis by simp
  next
    case (Inr row)
    with create.hyps have c: "create_task rnd now exc db_now b db = (Inr row, db')" by simp
    have "db' = db @ [row]" by (rule create_task_Inr(1) [OF c])
    with create.prems have "t \<in> set db \<or> t = row" by auto
    then show ?thesis
    proof
      assume "t \<in> set db"
      then show ?thesis by (rule create.IH)
    next
      assume "t = row"
      then show ?thesis
        using create_task_Inr(2) [OF c] create_task_Inr(6) [OF c] by blast
    qed
  qed
next
  case (update db id_eq utcnow path b r db')
  obtain e where "update_task id_eq utcnow path b db = (Inl e, db)"
    using update_task_fails by blast
  with update.hyps have "db' = db" by simp
  with update show ?case by simp
next
  case (delete db task_id r db')
  then have "t \<in> set db" using delete_task_set by blast
  then show ?case by (rule delete.IH)
qed

lemma reachable_ex: "reachable [ex_task]"
  by (rule reachable.create [OF reachable.init create_ex])


lemma titles_ok_create: "titles_ok db \<Longrightarrow> titles_ok (snd (create_task rnd now exc db_now b db))"
proof (cases "fst (create_task rnd now exc db_now b db)")
  case (Inl e)
  assume ok: "titles_ok db"
  have c: "create_task rnd now exc db_now b db = (Inl e, snd (create_task rnd now exc db_now b db))"
    using Inl by (metis prod.collapse)
  show ?thesis
    using ok create_task_Inl [OF c] by simp
next
  case (Inr t)
  assume ok: "titles_ok db"
  have c: "create_task rnd now exc db_now b db = (Inr t, snd (create_task rnd now exc db_now b db))"
    using Inr by (metis prod.collapse)
  show ?thesis
    using ok create_task_Inr(1) [OF c] create_task_Inr(6) [OF c]
    by (simp add: titles_ok_def)
qed

lemma snd_update_task: "snd (update_task id_eq utcnow path b db) = db"
  using update_task_fails [of id_eq utcnow path b db] by auto

lemma titles_ok_delete: "titles_ok db \<Longrightarrow> titles_ok (snd (delete_task task_id db))"
  by (auto simp: titles_ok_def delete_task_def list_all_iff split: option.splits)


section \<open>The claims\<close>

text \<open>
  Claim C1. For every stored task, update on its id with an empty partial input succeeds
  and changes only \<open>updated_at\<close>. The handler does not: the task that POST /tasks stores
  for \<open>ex_body\<close> has a UUID as id, and PUT on that id with the empty body is answered
  with 422, since the route wants an integer in the path.
\<close>

theorem update_task_empty_body_rejected:
  "create_task 0 1 None 2 ex_body [] = (Inr ex_task, [ex_task])
   \<and> update_task id_eq utcnow (id_str ex_task) empty_body [ex_task]
       = (Inl RequestValidationError, [ex_task])"
proof -
  have "id_str ex_task = str_uuid (uuid4 0)"
    by (simp add: ex_task_def str_uuid_zero)
  then show ?thesis
    by (simp add: create_ex update_task_uuid_path)
qed






text \<open>
  Claim C4. Create with a missing, an empty or a white-space-only title fails with 422 and
  stores nothing: the table, and so its count, is what it was.
\<close>

theorem create_task_blank_title:
  assumes "case b_title b of None \<Rightarrow> True | Some t \<Rightarrow> strip t = []"
  shows "\<exists>e. create_task rnd now exc db_now b db = (Inl e, db) \<and> status_code e = 422
           \<and> length (snd (create_task rnd now exc db_now b db)) = length db"
  using assms
  by (auto simp: create_task_def validate_TaskCreate_def split: option.splits)

theorem create_task_blank_title_witness:
  "(case b_title blank_body of None \<Rightarrow> True | Some t \<Rightarrow> strip t = [])
   \<and> create_task 0 1 None 2 blank_body [ex_task] = (Inl (HTTPException 422), [ex_task])"
proof -
  have h: "case b_title blank_body of None \<Rightarrow> True | Some t \<Rightarrow> strip t = []"
    by (simp add: blank_body_def empty_body_def strip_def isspace_def)
  have "create_task 0 1 None 2 blank_body [ex_task] = (Inl (HTTPException 422), [ex_task])"
    by (simp add: create_task_def validate_TaskCreate_def blank_body_def empty_body_def
        max_length_def strip_def isspace_def)
  with h create_task_blank_title [OF h, of 0 1 None 2 "[ex_task]"] show ?thesis
    by simp
qed

text \<open>
  Claim C5. When create succeeds, get on the id of the returned task succeeds and returns
  that task, equal in every field.
\<close>

theorem get_task_after_create:
  assumes "create_task rnd now exc db_now b db = (Inr t, db')"
  shows "get_task (id_str t) db' = Inr t"
proof -
  note r = create_task_Inr [OF assms]
  have "\<forall>r \<in> set db. \<not> id_str r = id_str t"
    using r(3) by (metis imageI)
  then have "find (\<lambda>r. id_str r = id_str t) (db @ [t]) = Some t"
    by (rule find_append_last) simp
  then show ?thesis
    by (simp add: get_task_def r(1))
qed

theorem get_task_after_create_witness:
  "create_task 0 1 None 2 ex_body [] = (Inr ex_task, [ex_task])
   \<and> get_task (id_str ex_task) [ex_task] = Inr ex_task"
  using get_task_after_create [OF create_ex] create_ex by simp

text \<open>
  Claim C6, as amended. For every table and every combination of the three optional
  filters, list returns exactly the stored tasks that match every supplied filter, where an
  assignee filter that is the empty text counts as not supplied; with no filter it returns
  every task, and with status DONE alone exactly the tasks whose status is DONE.
\<close>

theorem get_tasks_filters:
  "get_tasks status_q priority_q assignee_q db
     = filter (spec_matches status_q priority_q
                 (if assignee_q = Some [] then None else assignee_q)) db
   \<and> get_tasks None None None db = db
   \<and> get_tasks (Some DONE) None None db = filter (\<lambda>t. status t = DONE) db"
proof -
  have 1: "get_tasks status_q priority_q assignee_q db
     = filter (spec_matches status_q priority_q
                 (if assignee_q = Some [] then None else assignee_q)) db"
    by (cases status_q; cases priority_q; cases assignee_q)
       (auto simp: get_tasks_def truthy_enum_def truthy_str_def spec_matches_def
          intro!: filter_cong)
  have 2: "get_tasks None None None db = db"
    by (simp add: get_tasks_def truthy_enum_def truthy_str_def)
  have 3: "get_tasks (Some DONE) None None db = filter (\<lambda>t. status t = DONE) db"
    by (simp add: get_tasks_def truthy_enum_def truthy_str_def)
  from 1 2 3 show ?thesis by simp
qed

text \<open>
  Claim C6 as stated fails for the empty assignee: the task of bob does not match the
  filter, and list returns it.
\<close>

theorem get_tasks_empty_assignee_not_exact:
  "get_tasks None None (Some '''') [ex_task] = [ex_task]
   \<and> filter (spec_matches None None (Some '''')) [ex_task] = []"
  by (simp add: get_tasks_def truthy_enum_def truthy_str_def spec_matches_def ex_task_def)

text \<open>
  Claim C7. In every table that create, update and delete requests produce from the empty
  one, every stored title is neither empty nor white space only; and each of the three
  handlers keeps that property of the table.
\<close>

theorem stored_titles_not_blank:
  "(reachable db \<longrightarrow> titles_ok db)
   \<and> (titles_ok db \<longrightarrow>
        titles_ok (snd (create_task rnd now exc db_now b db))
        \<and> titles_ok (snd (update_task id_eq utcnow path b db))
        \<and> titles_ok (snd (delete_task task_id db)))"
proof -
  have "titles_ok db" if "reachable db"
    using reachable_rows [OF that] by (simp add: titles_ok_def list_all_iff)
  then show ?thesis
    by (simp add: titles_ok_create snd_update_task titles_ok_delete)
qed

theorem stored_titles_not_blank_witness:
  "reachable [ex_task] \<and> titles_ok [ex_task]
   \<and> titles_ok (snd (create_task 0 1 None 2 ex_body [ex_task]))
   \<and> titles_ok (snd (delete_task ''x'' [ex_task]))"
  using stored_titles_not_blank [where db = "[ex_task]" and rnd = 0 and now = 1 and exc = None
      and db_now = 2 and b = ex_body and task_id = "''x''"]
    reachable_ex
  by simp

text \<open>
  Claim C8. health never raises: when both calls to the collaborator return, the answer is
  healthy with the count of the stored tasks; when either raises, the answer is unhealthy
  with the text of the exception.
\<close>

theorem health_check_never_raises:
  "health_check None None db
     = Inr [(''status'', S ''healthy''), (''database'', S ''connected''),
            (''tasks_count'', N (length db))]
   \<and> health_check (Some e) count_exc db
       = Inr [(''status'', S ''unhealthy''), (''database'', S e)]
   \<and> health_check None (Some e) db = Inr [(''status'', S ''unhealthy''), (''database'', S e)]
   \<and> (\<exists>r. health_check execute_exc count_exc db = Inr r)"
  by (simp add: health_check_def split: option.splits)

text \<open>
  Claim C9. Update never completes successfully. Whatever the request, the answer is an
  error and the table is unchanged; for the id of a task stored by create the route's
  integer path parameter rejects the UUID with 422; and when the path is an integer and a
  row is found, the membership test on that single row raises \<open>TypeError\<close>.
\<close>

theorem update_task_never_succeeds:
  "(\<exists>e. update_task id_eq utcnow path b db = (Inl e, db))
   \<and> (reachable db \<longrightarrow> t \<in> set db \<longrightarrow>
        update_task id_eq utcnow (id_str t) b db = (Inl RequestValidationError, db))
   \<and> (int_of_path path = Some n \<longrightarrow> validate_TaskUpdate b = Inr u \<longrightarrow>
        find (\<lambda>r. id_eq (id_str r) n) db = Some row \<longrightarrow>
        update_task id_eq utcnow path b db = (Inl (Unhandled ''TypeError''), db))"
proof -
  have "update_task id_eq utcnow (id_str t) b db = (Inl RequestValidationError, db)"
    if r: "reachable db" and m: "t \<in> set db"
  proof -
    obtain rnd where "id_str t = str_uuid (uuid4 rnd)"
      using reachable_rows [OF r m] by blast
    then show ?thesis by (simp add: update_task_uuid_path)
  qed
  moreover have "update_task id_eq utcnow path b db = (Inl (Unhandled ''TypeError''), db)"
    if "int_of_path path = Some n" and "validate_TaskUpdate b = Inr u"
      and "find (\<lambda>r. id_eq (id_str r) n) db = Some row"
    using that by (simp add: update_task_def row_contains_def)
  ultimately show ?thesis
    using update_task_fails by blast
qed

theorem update_task_never_succeeds_witness:
  "reachable [ex_task] \<and> ex_task \<in> set [ex_task]
   \<and> update_task (\<lambda>s n. s = ''7'' \<and> n = 7) 5 (id_str ex_task) empty_body [ex_task]
       = (Inl RequestValidationError, [ex_task])
   \<and> int_of_path ''7'' = Some 7
   \<and> find (\<lambda>r. id_str r = ''7'' \<and> (7::int) = 7) [numbered_task] = Some numbered_task
   \<and> update_task (\<lambda>s n. s = ''7'' \<and> n = 7) 5 ''7'' empty_body [numbered_task]
       = (Inl (Unhandled ''TypeError''), [numbered_task])"
proof -
  have p: "int_of_path ''7'' = Some 7"
    by (simp add: int_of_path_def strip_def isspace_def isdigit_def digits_value_def)
  have v: "validate_TaskUpdate empty_body
      = Inr \<lparr>TaskUpdate.title = None, TaskUpdate.description = None, TaskUpdate.status = None,
             TaskUpdate.priority = None, TaskUpdate.assignee = None, TaskUpdate.due_date = None\<rparr>"
    by (simp add: validate_TaskUpdate_def empty_body_def max_length_def)
  have f: "find (\<lambda>r. id_str r = ''7'' \<and> (7::int) = 7) [numbered_task] = Some numbered_task"
    by (simp add: numbered_task_def)
  show ?thesis
    using update_task_never_succeeds [where id_eq = "\<lambda>s n. s = ''7'' \<and> n = 7" and utcnow = 5
        and path = "id_str ex_task" and b = empty_body and db = "[ex_task]" and t = ex_task]
      update_task_never_succeeds [where id_eq = "\<lambda>s n. s = ''7'' \<and> n = 7" and utcnow = 5
        and path = "''7''" and b = empty_body and db = "[numbered_task]" and n = 7
        and row = numbered_task]
      reachable_ex p v f
    by simp
qed

text \<open>
  Claim C10. list treats an assignee filter that is the empty text as no filter: it returns
  what it returns without the filter, and all stored tasks when no other filter is given.
\<close>

theorem get_tasks_empty_assignee:
  "get_tasks status_q priority_q (Some '''') db = get_tasks status_q priority_q None db
   \<and> get_tasks None None (Some '''') db = db"
  by (simp add: get_tasks_def truthy_enum_def truthy_str_def)

end
